theory Spec2Isabelle
  imports Complex_Main
begin

section \<open>Overview\<close>

text \<open>
  A model of \<open>tutorial.ipynb\<close>, a notebook that fine-tunes language models for sentiment
  analysis in three variants: a classification head, instruction-augmented inputs, and
  low-rank adapters on a frozen model. The notebook's own logic is modelled from its
  cells as they are committed: the label indexing, the instruction concatenation, the
  training loops, the freeze loop, the counting loop of \<open>print_trainable_parameters\<close>
  and the cells themselves as a program. The framework primitives the cells call
  (\<open>list.index\<close>, \<open>torch.cat\<close>, \<open>torch.ones_like\<close>, \<open>torch.tensor\<close>) are given
  their documented meaning; the tokenizer, whose code is not part of the notebook, is
  modelled from the specification's contract and marked as such; \<open>get_peft_model\<close> is a
  parameter. All definitions come first, the properties after them.
\<close>

section \<open>Faults\<close>

text \<open>
  The notebook is Python. Every exception a cell can raise is a value of \<open>error\<close>, and a
  fallible operation returns \<open>error + 'a\<close> with \<open>Inl\<close> for the exception.
\<close>

datatype error =
  SyntaxError | NameError | TypeError | KeyError | ValueError | RuntimeError | ZeroDivisionError

section \<open>Model parameters and the counting loop\<close>

text \<open>
  A parameter tensor, as far as the notebook looks at it: its shape (\<open>param.ndim\<close>,
  \<open>param.numel()\<close>), its element type (\<open>param.data.to(torch.float32)\<close>) and the flag
  \<open>param.requires_grad\<close>. A model is what \<open>model.named_parameters()\<close> yields: the
  parameters with their names, in order.
\<close>

datatype torch_dtype = Int8 | Float16 | Float32

record param =
  shape :: "nat list"
  dtype :: torch_dtype
  requires_grad :: bool

definition numel :: "param \<Rightarrow> nat" where
  "numel p = prod_list (shape p)"

definition ndim :: "param \<Rightarrow> nat" where
  "ndim p = length (shape p)"

type_synonym model = "(string \<times> param) list"

text \<open>
  The counting loop of \<open>print_trainable_parameters\<close>:
  \<^verbatim>\<open>
    trainable_params = 0
    all_param = 0
    for _, param in model.named_parameters():
        all_param += param.numel()
        if param.requires_grad:
            trainable_params += param.numel()
  \<close>
  The pair is \<open>(trainable_params, all_param)\<close>.
\<close>

fun counting_loop :: "model \<Rightarrow> nat \<times> nat \<Rightarrow> nat \<times> nat" where
  "counting_loop [] (trainable_params, all_param) = (trainable_params, all_param)"
| "counting_loop ((_, p) # rest) (trainable_params, all_param) =
     (let all_param' = all_param + numel p;
          trainable_params' =
            (if requires_grad p then trainable_params + numel p else trainable_params)
      in counting_loop rest (trainable_params', all_param'))"

text \<open>The two totals the loop computes, in closed form.\<close>

definition total_numel :: "model \<Rightarrow> nat" where
  "total_numel m = sum_list (map (\<lambda>(_, p). numel p) m)"

definition trainable_numel :: "model \<Rightarrow> nat" where
  "trainable_numel m = sum_list (map (\<lambda>(_, p). numel p) (filter (\<lambda>(_, p). requires_grad p) m))"

section \<open>Labels\<close>

text \<open>
  \<open>list.index(x)\<close>: the position of the first element equal to \<open>x\<close>; raises
  \<open>ValueError\<close> when there is none.
\<close>

fun list_index :: "'a list \<Rightarrow> 'a \<Rightarrow> error + nat" where
  "list_index [] x = Inl ValueError"
| "list_index (y # ys) x =
     (if y = x then Inr 0
      else case list_index ys x of Inl e \<Rightarrow> Inl e | Inr i \<Rightarrow> Inr (Suc i))"

text \<open>
  A list comprehension \<open>[f(x) for x in xs]\<close> whose body may raise: the first exception
  aborts the comprehension.
\<close>

fun comprehension :: "('a \<Rightarrow> error + 'b) \<Rightarrow> 'a list \<Rightarrow> error + 'b list" where
  "comprehension f [] = Inr []"
| "comprehension f (x # xs) =
     (case f x of
        Inl e \<Rightarrow> Inl e
      | Inr y \<Rightarrow> (case comprehension f xs of Inl e \<Rightarrow> Inl e | Inr ys \<Rightarrow> Inr (y # ys)))"

text \<open>
  \<^verbatim>\<open>sentiment_labels = [sentiments.index(sentiment) for sentiment in sentiments]\<close>
\<close>

definition sentiment_labels :: "string list \<Rightarrow> error + nat list" where
  "sentiment_labels sentiments = comprehension (list_index sentiments) sentiments"

text \<open>\<^verbatim>\<open>num_classes = len(set(sentiment_labels))\<close>\<close>

definition num_classes :: "nat list \<Rightarrow> nat" where
  "num_classes labels = card (set labels)"

text \<open>
  The label-to-index mapping the comprehension realises: a label of the list goes to the
  index \<open>list.index\<close> returns for it. Outside the list \<open>list.index\<close> raises; the
  mapping is only ever used on labels of the list, and is given the list's length there
  to be a total function.
\<close>

definition label_to_index :: "string list \<Rightarrow> string \<Rightarrow> nat" where
  "label_to_index sentiments s =
     (case list_index sentiments s of Inr i \<Rightarrow> i | Inl _ \<Rightarrow> length sentiments)"

section \<open>Tensors and the instruction concatenation\<close>

text \<open>
  The notebook's tensors of token ids and masks are two-dimensional integer tensors
  (\<open>return_tensors='pt'\<close>): a list of rows. A tensor of shape \<open>n \<times> l\<close> has \<open>n\<close> rows
  of \<open>l\<close> entries each.
\<close>

type_synonym tensor = "int list list"

definition has_shape :: "tensor \<Rightarrow> nat \<Rightarrow> nat \<Rightarrow> bool" where
  "has_shape t n l \<longleftrightarrow> length t = n \<and> list_all (\<lambda>row. length row = l) t"

text \<open>
  \<open>torch.cat([a, b], dim=1)\<close> on two-dimensional tensors joins the rows pairwise; the
  tensors must agree in every other dimension, here the number of rows, or the call raises
  \<open>RuntimeError\<close>.
\<close>

definition torch_cat_dim1 :: "tensor \<Rightarrow> tensor \<Rightarrow> error + tensor" where
  "torch_cat_dim1 a b =
     (if length a = length b then Inr (map (\<lambda>(ra, rb). ra @ rb) (zip a b))
      else Inl RuntimeError)"

text \<open>\<open>torch.ones_like(t)\<close>: a tensor of the shape of \<open>t\<close>, every entry 1.\<close>

definition torch_ones_like :: "tensor \<Rightarrow> tensor" where
  "torch_ones_like t = map (map (\<lambda>_. 1)) t"

text \<open>
  The concatenation cell:
  \<^verbatim>\<open>
    input_ids = torch.cat([instruction_ids, input_ids], dim=1)
    attention_mask = torch.cat([torch.ones_like(instruction_ids), attention_mask], dim=1)
  \<close>
  The result is the pair of the new \<open>input_ids\<close> and the new \<open>attention_mask\<close>.
\<close>

definition concat_instructions :: "tensor \<Rightarrow> tensor \<Rightarrow> tensor \<Rightarrow> error + (tensor \<times> tensor)" where
  "concat_instructions instruction_ids input_ids attention_mask =
     (case torch_cat_dim1 instruction_ids input_ids of
        Inl e \<Rightarrow> Inl e
      | Inr input_ids' \<Rightarrow>
          (case torch_cat_dim1 (torch_ones_like instruction_ids) attention_mask of
             Inl e \<Rightarrow> Inl e
           | Inr attention_mask' \<Rightarrow> Inr (input_ids', attention_mask')))"

section \<open>The tokenizer and the encoding step\<close>

text \<open>
  Modelled from the spec: the tokenizer is an object of the \<open>transformers\<close> library, loaded
  by \<open>from_pretrained\<close>; none of its code is in the notebook. What the encoding step
  needs of it: the ids it gives one text through its vocabulary (\<open>encode\<close>, special
  tokens included), the id it pads with, and the model's maximum length.
\<close>

record tokenizer =
  encode :: "string \<Rightarrow> int list"
  pad_token_id :: int
  model_max_length :: nat

text \<open>
  Modelled from the spec: \<open>truncation=True\<close> cuts a sample that is longer than the
  model's maximum length down to that length.
\<close>

definition truncation :: "tokenizer \<Rightarrow> int list \<Rightarrow> int list" where
  "truncation tk ids = take (model_max_length tk) ids"

text \<open>Modelled from the spec: the length of the longest sample of a batch (0 for no sample).\<close>

definition longest :: "int list list \<Rightarrow> nat" where
  "longest rows = foldr max (map length rows) 0"

text \<open>
  Modelled from the spec: \<open>padding=True\<close> pads every sample of the batch to the longest
  one with the padding id; the attention mask is 1 on the sample's own positions and 0
  on the padding.
\<close>

definition pad_row :: "nat \<Rightarrow> int \<Rightarrow> int list \<Rightarrow> int list" where
  "pad_row l pad ids = ids @ replicate (l - length ids) pad"

text \<open>
  Modelled from the spec: the attention-mask row of a sample padded to length \<open>l\<close>.
\<close>

definition mask_row :: "nat \<Rightarrow> int list \<Rightarrow> int list" where
  "mask_row l ids = replicate (length ids) 1 @ replicate (l - length ids) 0"

text \<open>
  The value of a tokenizer call is a dictionary from the keys \<open>'input_ids'\<close> and
  \<open>'attention_mask'\<close> to tensors.
\<close>

type_synonym batch_encoding = "string \<rightharpoonup> tensor"

text \<open>
  Modelled from the spec: the call
  \<^verbatim>\<open>tokenizer(texts, padding=True, truncation=True, return_tensors='pt')\<close>
  ("given a list of N strings and a maximum-length policy (pad to longest, truncate beyond
  model's max), produce two equal-shape numeric sequences (token ids, attention mask)").
\<close>

definition tokenizer_call :: "tokenizer \<Rightarrow> string list \<Rightarrow> batch_encoding" where
  "tokenizer_call tk texts =
     (let rows = map (\<lambda>text. truncation tk (encode tk text)) texts;
          l = longest rows
      in [''input_ids'' \<mapsto> map (pad_row l (pad_token_id tk)) rows,
          ''attention_mask'' \<mapsto> map (mask_row l) rows])"

text \<open>A subscript \<open>d[key]\<close> on a dictionary raises \<open>KeyError\<close> on a missing key.\<close>

definition subscript :: "('k \<rightharpoonup> 'v) \<Rightarrow> 'k \<Rightarrow> error + 'v" where
  "subscript d key = (case d key of None \<Rightarrow> Inl KeyError | Some v \<Rightarrow> Inr v)"

section \<open>The training loops\<close>

text \<open>
  The calls a training loop makes into the framework, in the order it makes them. The
  framework's own work (the forward pass, backpropagation, the AdamW update) is not
  modelled: a call is recorded as an event of the run.
\<close>

datatype event = ZeroGrad | Forward | Backward | OptimizerStep

text \<open>
  The elements of a Python list handed to \<open>torch.tensor\<close>: integers (the label indices)
  or strings (the label names). A tensor holds numbers only: \<open>torch.tensor\<close> raises
  \<open>ValueError\<close> on a list that holds a string.
\<close>

datatype pyval = PyInt int | PyStr string

fun torch_tensor :: "pyval list \<Rightarrow> error + int list" where
  "torch_tensor [] = Inr []"
| "torch_tensor (PyInt i # xs) =
     (case torch_tensor xs of Inl e \<Rightarrow> Inl e | Inr t \<Rightarrow> Inr (i # t))"
| "torch_tensor (PyStr s # xs) = Inl ValueError"

text \<open>
  The names the import statements have bound when a loop runs, cells taken from top to
  bottom. \<open>import a.b as c\<close> binds \<open>c\<close> only: before the first loop the notebook
  has run \<open>from transformers import ...\<close> (line 18), \<open>import torch.nn as nn\<close>
  (line 88) and \<open>import torch.optim as optim\<close> (line 113), and \<open>torch\<close> itself is
  not bound; the first \<open>import torch\<close> is at line 224, before the second loop.
\<close>

definition imported_before_first_loop :: "string list" where
  "imported_before_first_loop =
     [''DistilBertTokenizer'', ''DistilBertForSequenceClassification'', ''nn'', ''optim'']"

definition imported_before_second_loop :: "string list" where
  "imported_before_second_loop =
     imported_before_first_loop
     @ [''GPT2Tokenizer'', ''GPT2ForSequenceClassification'', ''torch'', ''optim'']"

text \<open>
  One pass of the loop body, on the events so far:
  \<^verbatim>\<open>
    optimizer.zero_grad()
    outputs = model(input_ids, attention_mask=attention_mask, labels=torch.tensor(...))
    loss = outputs.loss
    loss.backward()
    optimizer.step()
  \<close>
  The arguments of \<open>model(...)\<close> are evaluated before the call: when the name
  \<open>torch\<close> is unbound (\<open>NameError\<close>) or \<open>torch.tensor\<close> raises, the forward pass
  is never started. The result is the events and the exception that ended the pass, if
  any. The other names of the statement are taken as bound (an unbound one raises the
  same \<open>NameError\<close> at the same statement).
\<close>

definition epoch :: "string list \<Rightarrow> pyval list \<Rightarrow> event list \<Rightarrow> event list \<times> error option" where
  "epoch imported labels events =
     (let events1 = events @ [ZeroGrad] in
      if ''torch'' \<notin> set imported then (events1, Some NameError)
      else
        case torch_tensor labels of
          Inl e \<Rightarrow> (events1, Some e)
        | Inr t \<Rightarrow> (events1 @ [Forward, Backward, OptimizerStep], None))"

text \<open>\<open>for epoch in range(n): body\<close>: an exception in the body ends the loop.\<close>

fun for_range ::
  "nat \<Rightarrow> (event list \<Rightarrow> event list \<times> error option) \<Rightarrow> event list
     \<Rightarrow> event list \<times> error option" where
  "for_range 0 body events = (events, None)"
| "for_range (Suc n) body events =
     (case body events of
        (events', Some e) \<Rightarrow> (events', Some e)
      | (events', None) \<Rightarrow> for_range n body events')"

definition num_epochs :: nat where
  "num_epochs = 3"

text \<open>
  The first training loop passes the label indices:
  \<open>labels=torch.tensor(sentiment_labels)\<close>.
\<close>

definition training_loop_1 :: "nat list \<Rightarrow> event list \<times> error option" where
  "training_loop_1 labels =
     for_range num_epochs
       (epoch imported_before_first_loop (map (\<lambda>i. PyInt (int i)) labels)) []"

text \<open>
  The second training loop passes the label names themselves:
  \<open>labels=torch.tensor(sentiments)\<close>.
\<close>

definition training_loop_2 :: "string list \<Rightarrow> event list \<times> error option" where
  "training_loop_2 sentiments =
     for_range num_epochs (epoch imported_before_second_loop (map PyStr sentiments)) []"

text \<open>The number of complete forward/backward/step cycles in a run.\<close>

fun cycles :: "event list \<Rightarrow> nat" where
  "cycles (Forward # Backward # OptimizerStep # events) = Suc (cycles events)"
| "cycles (_ # events) = cycles events"
| "cycles [] = 0"

section \<open>Freezing, adapter injection and the parameter report\<close>

text \<open>
  The freeze loop:
  \<^verbatim>\<open>
    for param in model.parameters():
      param.requires_grad = False  # freeze the model - train adapters later
      if param.ndim == 1:
        param.data = param.data.to(torch.float32)
  \<close>
\<close>

definition freeze_loop :: "model \<Rightarrow> model" where
  "freeze_loop m =
     map (\<lambda>(name, p).
            (name, (let p' = p\<lparr>requires_grad := False\<rparr>
                    in if ndim p' = 1 then p'\<lparr>dtype := Float32\<rparr> else p'))) m"

text \<open>
  The functions the notebook itself defines, by name: a function takes a model and gives
  what it prints, or raises.
\<close>

type_synonym function_table = "string \<rightharpoonup> (model \<Rightarrow> error + string)"

text \<open>
  The cell that holds \<open>def print_trainable_parameters(model):\<close> (lines 349 to 362), as
  committed. Its \<open>print\<close> argument is a format string in double quotes that is opened on
  line 360 and closed on line 361:
  \<^verbatim>\<open>
        f"trainable params: {trainable_params} || all params: {all_param} ||
          trainable%: {100 * trainable_params / all_param}"
  \<close>
  A string literal of this kind cannot run over a line end, so the cell does not compile:
  running it raises \<open>SyntaxError\<close> and binds nothing.
\<close>

definition print_trainable_parameters_cell :: "function_table \<Rightarrow> error + function_table" where
  "print_trainable_parameters_cell fs = Inl SyntaxError"

text \<open>A cell that raises leaves the kernel's bindings as they were.\<close>

definition after_cell :: "(function_table \<Rightarrow> error + function_table) \<Rightarrow> function_table \<Rightarrow> function_table" where
  "after_cell c fs = (case c fs of Inl e \<Rightarrow> fs | Inr fs' \<Rightarrow> fs')"

text \<open>
  The functions bound when the last cells run: no other cell of the notebook defines a
  function, so they are what the defining cell leaves of an empty table.
\<close>

definition functions_at_call :: function_table where
  "functions_at_call = after_cell print_trainable_parameters_cell Map.empty"

text \<open>
  The call \<open>print_trainable_parameters(model)\<close> of line 390: the name is looked up, and
  an unbound name raises \<open>NameError\<close>.
\<close>

definition call_print_trainable_parameters :: "function_table \<Rightarrow> model \<Rightarrow> error + string" where
  "call_print_trainable_parameters fs m =
     (case fs ''print_trainable_parameters'' of
        None \<Rightarrow> Inl NameError
      | Some f \<Rightarrow> f m)"

text \<open>
  The adapter cell (lines 378 to 390), on the model the freeze loop left:
  \<^verbatim>\<open>
    model = get_peft_model(model, config)
    print_trainable_parameters(model)
  \<close>
  \<open>get_peft_model\<close> is a function of the \<open>peft\<close> library and a parameter here: it gives
  the wrapped model or raises.
\<close>

definition adapter_cell ::
  "(model \<Rightarrow> error + model) \<Rightarrow> function_table \<Rightarrow> model \<Rightarrow> error + string" where
  "adapter_cell get_peft_model fs m =
     (case get_peft_model m of
        Inl e \<Rightarrow> Inl e
      | Inr wrapped \<Rightarrow> call_print_trainable_parameters fs wrapped)"

section \<open>The notebook as a program\<close>

text \<open>
  The statements of the notebook's code cells, as syntax. A statement carries the line of
  \<open>tutorial.ipynb\<close> it starts on and its text (string quotes left out, long argument
  lists shortened). \<open>Try\<close> is Python's \<open>try: ... except: ...\<close>, the one construct that
  catches an exception.
\<close>

datatype stmt =
  Simple nat string
| For nat string "stmt list"
| If nat string "stmt list"
| Def nat string "stmt list"
| Class nat string "stmt list"
| Try "stmt list" "stmt list"

text \<open>
  A code cell is compiled as a whole before any of it runs: a cell that does not parse is
  \<open>Unparsable\<close> (with its first line), the others are the list of their statements.
\<close>

datatype cell = Unparsable nat | Code "stmt list"

definition notebook :: "cell list" where
  "notebook =
    [Code
      [Simple 18 ''from transformers import DistilBertTokenizer, DistilBertForSequenceClassification'',
       Simple 21 ''tokenizer = DistilBertTokenizer.from_pretrained(distilbert-base-uncased)'',
       Simple 24 ''model = DistilBertForSequenceClassification.from_pretrained(distilbert-base-uncased)''],
     Unparsable 42,
     Code
      [Simple 63 ''encoded_texts = tokenizer(texts, padding=True, truncation=True, return_tensors=pt)'',
       Simple 66 ''input_ids = encoded_texts[input_ids]'',
       Simple 67 ''attention_mask = encoded_texts[attention_mask]'',
       Simple 70 ''sentiment_labels = [sentiments.index(sentiment) for sentiment in sentiments]''],
     Code
      [Simple 88 ''import torch.nn as nn'',
       Simple 91 ''num_classes = len(set(sentiment_labels))'',
       Simple 92 ''classification_head = nn.Linear(model.config.hidden_size, num_classes)'',
       Simple 95 ''model.classifier = classification_head''],
     Code
      [Simple 113 ''import torch.optim as optim'',
       Simple 116 ''optimizer = optim.AdamW(model.parameters(), lr=2e-5)'',
       Simple 117 ''criterion = nn.CrossEntropyLoss()'',
       Simple 120 ''num_epochs = 3'',
       For 121 ''for epoch in range(num_epochs):''
        [Simple 122 ''optimizer.zero_grad()'',
         Simple 123 ''outputs = model(input_ids, attention_mask=attention_mask, labels=torch.tensor(sentiment_labels))'',
         Simple 124 ''loss = outputs.loss'',
         Simple 125 ''loss.backward()'',
         Simple 126 ''optimizer.step()'']],
     Code
      [Simple 153 ''from transformers import GPT2Tokenizer, GPT2ForSequenceClassification'',
       Simple 156 ''tokenizer = GPT2Tokenizer.from_pretrained(gpt2)'',
       Simple 159 ''model = GPT2ForSequenceClassification.from_pretrained(gpt2)''],
     Code
      [Simple 177 ''texts = [...]'',
       Simple 180 ''sentiments = [positive, negative, neutral]'',
       Simple 181 ''instructions = [...]''],
     Code
      [Simple 200 ''encoded_texts = tokenizer(texts, padding=True, truncation=True, return_tensors=pt)'',
       Simple 201 ''encoded_instructions = tokenizer(instructions, padding=True, truncation=True, return_tensors=pt)'',
       Simple 204 ''input_ids = encoded_texts[input_ids]'',
       Simple 205 ''attention_mask = encoded_texts[attention_mask]'',
       Simple 206 ''instruction_ids = encoded_instructions[input_ids]''],
     Code
      [Simple 224 ''import torch'',
       Simple 227 ''input_ids = torch.cat([instruction_ids, input_ids], dim=1)'',
       Simple 228 ''attention_mask = torch.cat([torch.ones_like(instruction_ids), attention_mask], dim=1)''],
     Code
      [Simple 246 ''import torch.optim as optim'',
       Simple 249 ''optimizer = optim.AdamW(model.parameters(), lr=2e-5)'',
       Simple 250 ''criterion = torch.nn.CrossEntropyLoss()'',
       Simple 253 ''num_epochs = 3'',
       For 254 ''for epoch in range(num_epochs):''
        [Simple 255 ''optimizer.zero_grad()'',
         Simple 256 ''outputs = model(input_ids, attention_mask=attention_mask, labels=torch.tensor(sentiments))'',
         Simple 257 ''loss = outputs.loss'',
         Simple 258 ''loss.backward()'',
         Simple 259 ''optimizer.step()'']],
     Code
      [Simple 288 ''import os'',
       Simple 289 ''os.environ[CUDA_VISIBLE_DEVICES]=0'',
       Simple 290 ''import torch'',
       Simple 291 ''import torch.nn as nn'',
       Simple 292 ''import bitsandbytes as bnb'',
       Simple 293 ''from transformers import AutoTokenizer, AutoConfig, AutoModelForCausalLM'',
       Simple 295 ''model = AutoModelForCausalLM.from_pretrained(facebook/opt-6.7b, load_in_8bit=True, device_map=auto)'',
       Simple 301 ''tokenizer = AutoTokenizer.from_pretrained(facebook/opt-6.7b)''],
     Code
      [For 319 ''for param in model.parameters():''
        [Simple 320 ''param.requires_grad = False'',
         If 321 ''if param.ndim == 1:''
          [Simple 322 ''param.data = param.data.to(torch.float32)'']],
       Simple 324 ''model.gradient_checkpointing_enable()'',
       Simple 325 ''model.enable_input_require_grads()'',
       Class 327 ''class CastOutputToFloat(nn.Sequential):''
        [Def 328 ''def forward(self, x):''
          [Simple 328 ''return super().forward(x).to(torch.float32)'']],
       Simple 329 ''model.lm_head = CastOutputToFloat(model.lm_head)''],
     Unparsable 349,
     Code
      [Simple 378 ''from peft import LoraConfig, get_peft_model'',
       Simple 380 ''config = LoraConfig(r=16, lora_alpha=32, target_modules=[q_proj, v_proj], ...)'',
       Simple 389 ''model = get_peft_model(model, config)'',
       Simple 390 ''print_trainable_parameters(model)''],
     Code
      [Simple 408 ''import transformers'',
       Simple 409 ''from datasets import load_dataset'',
       Simple 410 ''data = load_dataset(Abirate/english_quotes)'',
       Simple 411 ''data = data.map(lambda samples: tokenizer(samples[quote]), batched=True)'',
       Simple 413 ''trainer = transformers.Trainer(model=model, train_dataset=data[train], ...)'',
       Simple 428 ''model.config.use_cache = False'',
       Simple 429 ''trainer.train()'']]"

text \<open>
  No statement, at any depth (function and class bodies included), is a \<open>Try\<close>.
\<close>

fun handler_free :: "stmt \<Rightarrow> bool" where
  "handler_free (Simple line src) = True"
| "handler_free (For line header body) = list_all handler_free body"
| "handler_free (If line cond body) = list_all handler_free body"
| "handler_free (Def line header body) = list_all handler_free body"
| "handler_free (Class line header body) = list_all handler_free body"
| "handler_free (Try body handler) = False"

definition handler_free_cell :: "cell \<Rightarrow> bool" where
  "handler_free_cell c = (case c of Unparsable line \<Rightarrow> True | Code body \<Rightarrow> list_all handler_free body)"

text \<open>
  What happens when a statement runs is the libraries' business and is a parameter of the
  run: \<open>raises k line\<close> says whether the \<open>k\<close>-th statement executed, the one at
  \<open>line\<close>, raises and what; \<open>iterations line\<close> is the number of elements the loop at
  \<open>line\<close> iterates over; \<open>holds k line\<close> is the value of the condition at \<open>line\<close>.
\<close>

record env =
  raises :: "nat \<Rightarrow> nat \<Rightarrow> error option"
  iterations :: "nat \<Rightarrow> nat"
  holds :: "nat \<Rightarrow> nat \<Rightarrow> bool"

text \<open>
  A run is the list of the lines executed so far and the exception that ended it, if any.
  Executing the statement at \<open>line\<close> appends the line and asks the environment whether
  it raises.
\<close>

definition step :: "env \<Rightarrow> nat \<Rightarrow> nat list \<Rightarrow> nat list \<times> error option" where
  "step env line trace = (trace @ [line], raises env (length trace) line)"

text \<open>
  Python's execution of statements. An exception ends the enclosing block, loop and
  cell, unless a \<open>Try\<close> around it catches it and runs its handler. A \<open>def\<close> binds a
  name and does not run its body; a \<open>class\<close> statement runs its body.
\<close>

fun exec :: "env \<Rightarrow> stmt \<Rightarrow> nat list \<Rightarrow> nat list \<times> error option"
and exec_block :: "env \<Rightarrow> stmt list \<Rightarrow> nat list \<Rightarrow> nat list \<times> error option"
and exec_times :: "env \<Rightarrow> nat \<Rightarrow> stmt list \<Rightarrow> nat list \<Rightarrow> nat list \<times> error option"
where
  "exec env (Simple line src) trace = step env line trace"
| "exec env (For line header body) trace =
     (case step env line trace of
        (trace1, Some e) \<Rightarrow> (trace1, Some e)
      | (trace1, None) \<Rightarrow> exec_times env (iterations env line) body trace1)"
| "exec env (If line cond body) trace =
     (case step env line trace of
        (trace1, Some e) \<Rightarrow> (trace1, Some e)
      | (trace1, None) \<Rightarrow>
          if holds env (length trace) line then exec_block env body trace1 else (trace1, None))"
| "exec env (Def line header body) trace = step env line trace"
| "exec env (Class line header body) trace =
     (case step env line trace of
        (trace1, Some e) \<Rightarrow> (trace1, Some e)
      | (trace1, None) \<Rightarrow> exec_block env body trace1)"
| "exec env (Try body handler) trace =
     (case exec_block env body trace of
        (trace1, Some e) \<Rightarrow> exec_block env handler trace1
      | (trace1, None) \<Rightarrow> (trace1, None))"
| "exec_block env [] trace = (trace, None)"
| "exec_block env (s # rest) trace =
     (case exec env s trace of
        (trace1, Some e) \<Rightarrow> (trace1, Some e)
      | (trace1, None) \<Rightarrow> exec_block env rest trace1)"
| "exec_times env 0 body trace = (trace, None)"
| "exec_times env (Suc n) body trace =
     (case exec_block env body trace of
        (trace1, Some e) \<Rightarrow> (trace1, Some e)
      | (trace1, None) \<Rightarrow> exec_times env n body trace1)"

text \<open>
  Running a cell: a cell that does not parse raises \<open>SyntaxError\<close> before any statement
  runs.
\<close>

definition run_cell :: "env \<Rightarrow> cell \<Rightarrow> nat list \<times> error option" where
  "run_cell env c =
     (case c of
        Unparsable line \<Rightarrow> ([], Some SyntaxError)
      | Code body \<Rightarrow> exec_block env body [])"

text \<open>
  A run halts at its first exception: whenever a statement executed after \<open>trace0\<close>
  raises, the run ends with that exception and that statement is the last one executed.
\<close>

definition halts_at_first_fault :: "env \<Rightarrow> nat list \<Rightarrow> nat list \<times> error option \<Rightarrow> bool" where
  "halts_at_first_fault env trace0 r \<longleftrightarrow>
     (\<exists>suffix. fst r = trace0 @ suffix)
     \<and> (\<forall>k e. length trace0 \<le> k \<and> k < length (fst r) \<and> raises env k (fst r ! k) = Some e
            \<longrightarrow> snd r = Some e \<and> Suc k = length (fst r))"

text \<open>
  The environment of the second training loop as the notebook has it: the statement at
  line 256 evaluates \<open>torch.tensor(sentiments)\<close> on the three label names; nothing else
  raises; the loop is over \<open>range(num_epochs)\<close>.
\<close>

definition second_loop_env :: env where
  "second_loop_env =
     \<lparr>raises = (\<lambda>k line.
        if line = 256
        then (case torch_tensor (map PyStr [''positive'', ''negative'', ''neutral'']) of
                Inl e \<Rightarrow> Some e | Inr t \<Rightarrow> None)
        else None),
      iterations = (\<lambda>line. num_epochs),
      holds = (\<lambda>k line. True)\<rparr>"

section \<open>Properties of the counting loop\<close>

lemma counting_loop_sums:
  "counting_loop m (t, a) = (t + trainable_numel m, a + total_numel m)"
  by (induction m arbitrary: t a)
     (auto simp: trainable_numel_def total_numel_def Let_def)

lemma trainable_le_total: "trainable_numel m \<le> total_numel m"
  by (induction m) (auto simp: trainable_numel_def total_numel_def)

text \<open>
  C9. After the counting loop of \<open>print_trainable_parameters\<close>, for every model,
  \<open>trainable_params \<le> all_param\<close>: each parameter's element count is added to
  \<open>all_param\<close> always and to \<open>trainable_params\<close> only under \<open>requires_grad\<close>.
\<close>

theorem counting_loop_trainable_le_all:
  "fst (counting_loop m (0, 0)) \<le> snd (counting_loop m (0, 0))"
  by (simp add: counting_loop_sums trainable_le_total)

text \<open>
  Strictness of the inequality: the trainable count is below the total exactly when the
  model holds a parameter that is frozen and has an element.
\<close>

lemma trainable_less_total_iff:
  "trainable_numel m < total_numel m \<longleftrightarrow> (\<exists>x \<in> set m. \<not> requires_grad (snd x) \<and> 0 < numel (snd x))"
proof (induction m)
  case Nil
  then show ?case by (simp add: trainable_numel_def total_numel_def)
next
  case (Cons x m)
  have le: "trainable_numel m \<le> total_numel m"
    by (rule trainable_le_total)
  have t: "trainable_numel (x # m) = (if requires_grad (snd x) then numel (snd x) else 0) + trainable_numel m"
    by (simp add: trainable_numel_def split: prod.splits)
  have a: "total_numel (x # m) = numel (snd x) + total_numel m"
    by (simp add: total_numel_def split: prod.splits)
  show ?case
    unfolding t a using Cons.IH le by auto
qed

lemma counting_loop_strict_iff:
  "fst (counting_loop m (0, 0)) < snd (counting_loop m (0, 0))
     \<longleftrightarrow> (\<exists>x \<in> set m. \<not> requires_grad (snd x) \<and> 0 < numel (snd x))"
  by (simp add: counting_loop_sums trainable_less_total_iff)

section \<open>Properties of the label indexing\<close>

lemma list_index_mem:
  "x \<in> set xs \<Longrightarrow> \<exists>i. list_index xs x = Inr i \<and> i < length xs \<and> xs ! i = x"
  by (induction xs) auto

lemma comprehension_map:
  "(\<And>x. x \<in> set xs \<Longrightarrow> f x = Inr (g x)) \<Longrightarrow> comprehension f xs = Inr (map g xs)"
  by (induction xs) simp_all

lemma list_index_label_to_index:
  "x \<in> set sentiments \<Longrightarrow> list_index sentiments x = Inr (label_to_index sentiments x)"
  using list_index_mem[of x sentiments] by (auto simp: label_to_index_def)

lemma sentiment_labels_eq:
  "sentiment_labels sentiments = Inr (map (label_to_index sentiments) sentiments)"
  unfolding sentiment_labels_def
  by (rule comprehension_map) (rule list_index_label_to_index)

lemma label_to_index_inj: "inj_on (label_to_index sentiments) (set sentiments)"
proof (rule inj_onI)
  fix x y
  assume x: "x \<in> set sentiments" and y: "y \<in> set sentiments"
    and eq: "label_to_index sentiments x = label_to_index sentiments y"
  from list_index_mem[OF x] obtain i where i: "list_index sentiments x = Inr i" "sentiments ! i = x"
    by auto
  from list_index_mem[OF y] obtain j where j: "list_index sentiments y = Inr j" "sentiments ! j = y"
    by auto
  from eq i j have "i = j" by (simp add: label_to_index_def)
  with i j show "x = y" by simp
qed

text \<open>
  C3. The label-to-index mapping computed by
  \<open>sentiment_labels = [sentiments.index(s) for s in sentiments]\<close> is a bijection between
  the distinct labels of the list and the indices it produces: the comprehension never
  raises, gives each sample the index of its label, the mapping is one-to-one on the labels
  and onto the produced indices, and \<open>num_classes = len(set(sentiment_labels))\<close> is the
  number of distinct labels.
\<close>

theorem sentiment_labels_bijection:
  "\<exists>labels. sentiment_labels sentiments = Inr labels
     \<and> labels = map (label_to_index sentiments) sentiments
     \<and> bij_betw (label_to_index sentiments) (set sentiments) (set labels)
     \<and> num_classes labels = card (set sentiments)"
proof -
  let ?labels = "map (label_to_index sentiments) sentiments"
  have bij: "bij_betw (label_to_index sentiments) (set sentiments) (set ?labels)"
    unfolding bij_betw_def by (simp add: label_to_index_inj)
  have "card (set ?labels) = card (set sentiments)"
    using bij_betw_same_card[OF bij] by simp
  with bij show ?thesis
    by (simp add: sentiment_labels_eq num_classes_def)
qed

theorem sentiment_labels_bijection_witness:
  "sentiment_labels [''positive'', ''negative'', ''neutral'', ''negative''] = Inr [0, 1, 2, 1]
   \<and> bij_betw (label_to_index [''positive'', ''negative'', ''neutral'', ''negative''])
        (set [''positive'', ''negative'', ''neutral'', ''negative'']) (set [0, 1, 2, 1])
   \<and> num_classes [0, 1, 2, 1] = 3"
proof -
  have l: "map (label_to_index [''positive'', ''negative'', ''neutral'', ''negative''])
             [''positive'', ''negative'', ''neutral'', ''negative''] = [0, 1, 2, 1]"
    by (simp add: label_to_index_def)
  have "set [''positive'', ''negative'', ''neutral'', ''negative'']
          = {''positive'', ''negative'', ''neutral''}"
    by auto
  then have c: "card (set [''positive'', ''negative'', ''neutral'', ''negative'']) = 3"
    by simp
  from sentiment_labels_bijection [of "[''positive'', ''negative'', ''neutral'', ''negative'']"]
  show ?thesis
    unfolding l c by blast
qed

section \<open>Properties of the instruction concatenation\<close>

lemma has_shape_nth: "has_shape t n l \<Longrightarrow> i < n \<Longrightarrow> length (t ! i) = l"
  by (auto simp: has_shape_def list_all_length)

lemma has_shape_ones_like: "has_shape t n l \<Longrightarrow> has_shape (torch_ones_like t) n l"
  by (auto simp: has_shape_def torch_ones_like_def list_all_length)

lemma torch_cat_dim1_shape:
  assumes "has_shape a n la" and "has_shape b n lb"
  shows "torch_cat_dim1 a b = Inr (map (\<lambda>(ra, rb). ra @ rb) (zip a b))"
    and "has_shape (map (\<lambda>(ra, rb). ra @ rb) (zip a b)) n (la + lb)"
  using assms by (auto simp: torch_cat_dim1_def has_shape_def list_all_length)

lemma concat_instructions_eq:
  assumes "has_shape instruction_ids n li" and "has_shape input_ids n lt"
    and "has_shape attention_mask n lt"
  shows "concat_instructions instruction_ids input_ids attention_mask =
           Inr (map (\<lambda>(ra, rb). ra @ rb) (zip instruction_ids input_ids),
                map (\<lambda>(ra, rb). ra @ rb) (zip (torch_ones_like instruction_ids) attention_mask))"
  using torch_cat_dim1_shape(1)[OF assms(1,2)]
        torch_cat_dim1_shape(1)[OF has_shape_ones_like[OF assms(1)] assms(3)]
  by (simp add: concat_instructions_def)

text \<open>
  C5. For tensors of \<open>n\<close> samples (instruction ids of length \<open>li\<close>, text ids and text
  mask of length \<open>lt\<close>), the concatenation along dimension 1 succeeds, and for each sample
  the instruction-augmented input is the instruction row followed by the text row: its
  length is the instruction length plus the text length, and the adjusted attention mask
  has the same combined length.
\<close>

theorem concat_instructions_length:
  assumes "has_shape instruction_ids n li" and "has_shape input_ids n lt"
    and "has_shape attention_mask n lt"
  shows "\<exists>input_ids' attention_mask'.
           concat_instructions instruction_ids input_ids attention_mask
             = Inr (input_ids', attention_mask')
           \<and> has_shape input_ids' n (li + lt)
           \<and> has_shape attention_mask' n (li + lt)
           \<and> (\<forall>i < n. input_ids' ! i = instruction_ids ! i @ input_ids ! i
                 \<and> length (input_ids' ! i) = length (instruction_ids ! i) + length (input_ids ! i)
                 \<and> length (attention_mask' ! i) = length (input_ids' ! i))"
proof -
  let ?ids = "map (\<lambda>(ra, rb). ra @ rb) (zip instruction_ids input_ids)"
  let ?mask = "map (\<lambda>(ra, rb). ra @ rb) (zip (torch_ones_like instruction_ids) attention_mask)"
  have s1: "has_shape ?ids n (li + lt)"
    by (rule torch_cat_dim1_shape(2)[OF assms(1,2)])
  have s2: "has_shape ?mask n (li + lt)"
    by (rule torch_cat_dim1_shape(2)[OF has_shape_ones_like[OF assms(1)] assms(3)])
  have rows: "\<forall>i < n. ?ids ! i = instruction_ids ! i @ input_ids ! i"
    using assms(1,2) by (simp add: has_shape_def)
  have len: "\<forall>i < n. length (?mask ! i) = length (?ids ! i)"
    using has_shape_nth[OF s1] has_shape_nth[OF s2] by simp
  show ?thesis
    using concat_instructions_eq[OF assms] s1 s2 rows len by simp
qed

theorem concat_instructions_length_witness:
  "has_shape [[11, 12], [13, 14]] 2 2 \<and> has_shape [[1, 2, 3], [4, 5, 0]] 2 3
   \<and> has_shape [[1, 1, 1], [1, 1, 0]] 2 3
   \<and> concat_instructions [[11, 12], [13, 14]] [[1, 2, 3], [4, 5, 0]] [[1, 1, 1], [1, 1, 0]]
       = Inr ([[11, 12, 1, 2, 3], [13, 14, 4, 5, 0]], [[1, 1, 1, 1, 1], [1, 1, 1, 1, 0]])
   \<and> has_shape [[11, 12, 1, 2, 3], [13, 14, 4, 5, 0]] 2 (2 + 3)"
proof -
  have h1: "has_shape [[11, 12], [13, 14]] 2 2"
    and h2: "has_shape [[1, 2, 3], [4, 5, 0]] 2 3"
    and h3: "has_shape [[1, 1, 1], [1, 1, 0]] 2 3"
    by (simp_all add: has_shape_def)
  have c: "concat_instructions [[11, 12], [13, 14]] [[1, 2, 3], [4, 5, 0]] [[1, 1, 1], [1, 1, 0]]
             = Inr ([[11, 12, 1, 2, 3], [13, 14, 4, 5, 0]], [[1, 1, 1, 1, 1], [1, 1, 1, 1, 0]])"
    by (simp add: concat_instructions_def torch_cat_dim1_def torch_ones_like_def)
  from concat_instructions_length[OF h1 h2 h3] c
  have "has_shape [[11, 12, 1, 2, 3], [13, 14, 4, 5, 0]] 2 (2 + 3)"
    by auto
  with h1 h2 h3 c show ?thesis by simp
qed

text \<open>
  C8. The adjusted attention mask of the concatenation step is, for every sample, a run of
  ones as long as the instruction row followed by the text's own mask row: every
  instruction position is marked as content (1), whatever mask the instruction encoding
  itself carries (it is no input of the step), and the text positions keep their mask
  values.
\<close>

theorem concat_instructions_mask:
  assumes "has_shape instruction_ids n li" and "has_shape input_ids n lt"
    and "has_shape attention_mask n lt"
  shows "\<exists>input_ids' attention_mask'.
           concat_instructions instruction_ids input_ids attention_mask
             = Inr (input_ids', attention_mask')
           \<and> (\<forall>i < n. attention_mask' ! i = replicate li 1 @ attention_mask ! i
                 \<and> (\<forall>j < li. attention_mask' ! i ! j = 1)
                 \<and> (\<forall>j < lt. attention_mask' ! i ! (li + j) = attention_mask ! i ! j))"
proof -
  let ?ids = "map (\<lambda>(ra, rb). ra @ rb) (zip instruction_ids input_ids)"
  let ?mask = "map (\<lambda>(ra, rb). ra @ rb) (zip (torch_ones_like instruction_ids) attention_mask)"
  have ones: "\<forall>i < n. torch_ones_like instruction_ids ! i = replicate li 1"
    using assms(1)
    by (auto simp: torch_ones_like_def has_shape_def list_all_length map_replicate_const)
  have row: "\<forall>i < n. ?mask ! i = replicate li 1 @ attention_mask ! i"
    using ones assms(1,3) by (simp add: has_shape_def torch_ones_like_def)
  have "\<forall>i < n. (\<forall>j < li. ?mask ! i ! j = 1)
          \<and> (\<forall>j < lt. ?mask ! i ! (li + j) = attention_mask ! i ! j)"
    using row by (simp add: nth_append)
  with row show ?thesis
    using concat_instructions_eq[OF assms] by simp
qed

theorem concat_instructions_mask_witness:
  "has_shape [[21, 22, 23], [24, 0, 0]] 2 3 \<and> has_shape [[1, 2], [3, 0]] 2 2
   \<and> has_shape [[1, 1], [1, 0]] 2 2
   \<and> concat_instructions [[21, 22, 23], [24, 0, 0]] [[1, 2], [3, 0]] [[1, 1], [1, 0]]
       = Inr ([[21, 22, 23, 1, 2], [24, 0, 0, 3, 0]], [[1, 1, 1, 1, 1], [1, 1, 1, 1, 0]])"
proof -
  have h1: "has_shape [[21, 22, 23], [24, 0, 0]] 2 3"
    and h2: "has_shape [[1, 2], [3, 0]] 2 2"
    and h3: "has_shape [[1, 1], [1, 0]] 2 2"
    by (simp_all add: has_shape_def)
  from concat_instructions_mask[OF h1 h2 h3]
  obtain ids' mask' where
    r: "concat_instructions [[21, 22, 23], [24, 0, 0]] [[1, 2], [3, 0]] [[1, 1], [1, 0]]
          = Inr (ids', mask')"
    by blast
  then have "(ids', mask') = ([[21, 22, 23, 1, 2], [24, 0, 0, 3, 0]], [[1, 1, 1, 1, 1], [1, 1, 1, 1, 0]])"
    by (simp add: concat_instructions_def torch_cat_dim1_def torch_ones_like_def)
  with r h1 h2 h3 show ?thesis by simp
qed

section \<open>Properties of the encoding step\<close>

lemma length_le_longest: "row \<in> set rows \<Longrightarrow> length row \<le> longest rows"
  by (induction rows) (auto simp: longest_def)

lemma length_pad_row: "length ids \<le> l \<Longrightarrow> length (pad_row l pad ids) = l"
  by (simp add: pad_row_def)

lemma length_mask_row: "length ids \<le> l \<Longrightarrow> length (mask_row l ids) = l"
  by (simp add: mask_row_def)

lemma has_shape_padded:
  "has_shape (map (pad_row (longest rows) pad) rows) (length rows) (longest rows)"
  by (simp add: has_shape_def list_all_iff length_pad_row length_le_longest)

lemma has_shape_masks:
  "has_shape (map (mask_row (longest rows)) rows) (length rows) (longest rows)"
  by (simp add: has_shape_def list_all_iff length_mask_row length_le_longest)

lemma longest_truncated:
  "longest (map (\<lambda>text. truncation tk (encode tk text)) texts) \<le> model_max_length tk"
  by (induction texts) (simp_all add: longest_def truncation_def)

text \<open>
  C1. For every list of \<open>N\<close> input strings the encoding step produces a token-id tensor
  and an attention-mask tensor of the same shape \<open>N \<times> L\<close>, for the one length \<open>L\<close> of
  the longest (truncated) sample; \<open>L\<close> never exceeds the model's maximum length.
\<close>

theorem tokenizer_call_shape:
  "\<exists>input_ids attention_mask L.
     subscript (tokenizer_call tk texts) ''input_ids'' = Inr input_ids
     \<and> subscript (tokenizer_call tk texts) ''attention_mask'' = Inr attention_mask
     \<and> has_shape input_ids (length texts) L
     \<and> has_shape attention_mask (length texts) L
     \<and> L = longest (map (\<lambda>text. truncation tk (encode tk text)) texts)
     \<and> L \<le> model_max_length tk"
proof -
  let ?rows = "map (\<lambda>text. truncation tk (encode tk text)) texts"
  have "has_shape (map (pad_row (longest ?rows) (pad_token_id tk)) ?rows) (length texts) (longest ?rows)"
    using has_shape_padded[of ?rows] by simp
  moreover have "has_shape (map (mask_row (longest ?rows)) ?rows) (length texts) (longest ?rows)"
    using has_shape_masks[of ?rows] by simp
  ultimately show ?thesis
    using longest_truncated[of tk texts]
    by (simp add: tokenizer_call_def subscript_def Let_def)
qed

theorem tokenizer_call_shape_witness:
  "subscript (tokenizer_call
     \<lparr>encode = (\<lambda>text. 101 # map (\<lambda>c. int (of_char c)) text @ [102]),
      pad_token_id = 0, model_max_length = 5\<rparr> [''ab'', ''c'', ''defgh'']) ''input_ids''
     = Inr [[101, 97, 98, 102, 0], [101, 99, 102, 0, 0], [101, 100, 101, 102, 103]]
   \<and> subscript (tokenizer_call
     \<lparr>encode = (\<lambda>text. 101 # map (\<lambda>c. int (of_char c)) text @ [102]),
      pad_token_id = 0, model_max_length = 5\<rparr> [''ab'', ''c'', ''defgh'']) ''attention_mask''
     = Inr [[1, 1, 1, 1, 0], [1, 1, 1, 0, 0], [1, 1, 1, 1, 1]]
   \<and> has_shape [[101, 97, 98, 102, 0], [101, 99, 102, 0, 0], [101, 100, 101, 102, 103]] 3 5
   \<and> has_shape [[1, 1, 1, 1, 0], [1, 1, 1, 0, 0], [1, 1, 1, 1, 1]] 3 5"
proof -
  let ?tk = "\<lparr>encode = (\<lambda>text. 101 # map (\<lambda>c. int (of_char c)) text @ [102]),
              pad_token_id = 0, model_max_length = 5\<rparr>"
  have l: "longest (map (\<lambda>text. truncation ?tk (encode ?tk text)) [''ab'', ''c'', ''defgh'']) = 5"
    by (simp add: longest_def truncation_def)
  have i: "subscript (tokenizer_call ?tk [''ab'', ''c'', ''defgh'']) ''input_ids''
             = Inr [[101, 97, 98, 102, 0], [101, 99, 102, 0, 0], [101, 100, 101, 102, 103]]"
    by (simp add: tokenizer_call_def subscript_def Let_def longest_def truncation_def pad_row_def)
  have m: "subscript (tokenizer_call ?tk [''ab'', ''c'', ''defgh'']) ''attention_mask''
             = Inr [[1, 1, 1, 1, 0], [1, 1, 1, 0, 0], [1, 1, 1, 1, 1]]"
    by (simp add: tokenizer_call_def subscript_def Let_def longest_def truncation_def mask_row_def)
  from tokenizer_call_shape[of ?tk "[''ab'', ''c'', ''defgh'']"]
  show ?thesis
    unfolding i m l by (auto simp: numeral_3_eq_3)
qed

section \<open>Properties of the training loops\<close>

lemma torch_tensor_ints: "torch_tensor (map (\<lambda>i. PyInt (f i)) xs) = Inr (map f xs)"
  by (induction xs) simp_all

lemma torch_tensor_strs: "xs \<noteq> [] \<Longrightarrow> torch_tensor (map PyStr xs) = Inl ValueError"
  by (cases xs) simp_all

text \<open>
  The loop body as written, with \<open>torch\<close> bound and integer labels, makes \<open>n\<close> times
  the cycle zero_grad, forward, backward, step, in this order, and raises nothing.
\<close>

lemma for_range_epoch_ints:
  "''torch'' \<in> set imported \<Longrightarrow>
     for_range n (epoch imported (map (\<lambda>i. PyInt (f i)) xs)) events =
       (events @ concat (replicate n [ZeroGrad, Forward, Backward, OptimizerStep]), None)"
  by (induction n arbitrary: events) (simp_all add: epoch_def torch_tensor_ints)

text \<open>
  The first loop of the notebook, cells run from top to bottom, ends in its first pass:
  \<open>torch\<close> is unbound at line 123, so after one zero_grad a \<open>NameError\<close> is raised
  and no cycle is completed.
\<close>

lemma training_loop_1_halts:
  "training_loop_1 labels = ([ZeroGrad], Some NameError)
   \<and> cycles (fst (training_loop_1 labels)) = 0"
  by (simp add: training_loop_1_def num_epochs_def numeral_3_eq_3 epoch_def
      imported_before_first_loop_def)

text \<open>
  C2. The second training loop, on the label list of the notebook, does not run its three
  epochs: \<open>torch.tensor(sentiments)\<close> raises in the first pass, after the gradients were
  cleared once and before any forward pass; no forward/backward/step cycle occurs.
\<close>

theorem training_loop_2_halts:
  "training_loop_2 [''positive'', ''negative'', ''neutral''] = ([ZeroGrad], Some ValueError)
   \<and> cycles (fst (training_loop_2 [''positive'', ''negative'', ''neutral''])) = 0"
  by (simp add: training_loop_2_def num_epochs_def numeral_3_eq_3 epoch_def
      imported_before_second_loop_def imported_before_first_loop_def)

section \<open>Properties of the freeze loop and the parameter report\<close>

lemma freeze_loop_frozen: "\<forall>x \<in> set (freeze_loop m). \<not> requires_grad (snd x)"
  by (auto simp: freeze_loop_def Let_def split: if_splits)

lemma total_numel_freeze_loop: "total_numel (freeze_loop m) = total_numel m"
  by (induction m) (auto simp: freeze_loop_def total_numel_def numel_def Let_def)

lemma functions_at_call_unbound: "functions_at_call ''print_trainable_parameters'' = None"
  by (simp add: functions_at_call_def after_cell_def print_trainable_parameters_cell_def)

text \<open>
  C10. The cell that defines \<open>print_trainable_parameters\<close> does not compile, so the name
  is unbound when line 390 calls it: for every model the call raises \<open>NameError\<close>. It
  neither returns a percentage for a model with parameter elements nor raises
  \<open>ZeroDivisionError\<close> for the empty model.
\<close>

theorem print_trainable_parameters_unbound:
  "notebook ! 12 = Unparsable 349
   \<and> print_trainable_parameters_cell Map.empty = Inl SyntaxError
   \<and> call_print_trainable_parameters functions_at_call m = Inl NameError
   \<and> call_print_trainable_parameters functions_at_call [] \<noteq> Inl ZeroDivisionError"
proof -
  have "notebook ! 12 = Unparsable 349"
    by (simp add: notebook_def)
  then show ?thesis
    by (simp add: call_print_trainable_parameters_def functions_at_call_unbound
        print_trainable_parameters_cell_def)
qed

text \<open>
  C4. After the freeze loop and the adapter injection, whatever \<open>get_peft_model\<close>
  returns, the adapter cell prints no counts: it ends with the exception of
  \<open>get_peft_model\<close> or, when the injection succeeds, with the \<open>NameError\<close> of the
  call to the unbound \<open>print_trainable_parameters\<close>.
\<close>

theorem adapter_cell_reports_nothing:
  "adapter_cell get_peft_model functions_at_call (freeze_loop base) =
     (case get_peft_model (freeze_loop base) of
        Inl e \<Rightarrow> Inl e
      | Inr wrapped \<Rightarrow> Inl NameError)"
  by (simp add: adapter_cell_def call_print_trainable_parameters_def functions_at_call_unbound
      split: sum.splits)

section \<open>Propagation of faults in the notebook\<close>

lemma halts_step: "halts_at_first_fault env trace (step env line trace)"
  by (auto simp: halts_at_first_fault_def step_def nth_append less_Suc_eq)

lemma halts_refl: "halts_at_first_fault env trace (trace, None)"
  by (simp add: halts_at_first_fault_def)

lemma halts_seq:
  assumes "halts_at_first_fault env t0 (t1, None)" and "halts_at_first_fault env t1 r"
  shows "halts_at_first_fault env t0 r"
proof -
  from assms(1) obtain s1 where s1: "t1 = t0 @ s1"
    by (auto simp: halts_at_first_fault_def)
  from assms(2) obtain s2 where s2: "fst r = t1 @ s2"
    by (auto simp: halts_at_first_fault_def)
  have pre: "\<exists>suffix. fst r = t0 @ suffix"
    using s1 s2 by simp
  have "snd r = Some e \<and> Suc k = length (fst r)"
    if k: "length t0 \<le> k" "k < length (fst r)" "raises env k (fst r ! k) = Some e" for k e
  proof (cases "k < length t1")
    case True
    then have "fst r ! k = t1 ! k"
      using s2 by (simp add: nth_append)
    with k True assms(1) show ?thesis
      by (auto simp: halts_at_first_fault_def)
  next
    case False
    then have "length t1 \<le> k" by simp
    moreover from assms(2) have
      "\<forall>k e. length t1 \<le> k \<and> k < length (fst r) \<and> raises env k (fst r ! k) = Some e
         \<longrightarrow> snd r = Some e \<and> Suc k = length (fst r)"
      by (simp add: halts_at_first_fault_def)
    ultimately show ?thesis
      using k by blast
  qed
  with pre show ?thesis
    unfolding halts_at_first_fault_def by blast
qed

lemma exec_halts:
  "handler_free s \<Longrightarrow> halts_at_first_fault env trace (exec env s trace)"
  "list_all handler_free b \<Longrightarrow> halts_at_first_fault env trace (exec_block env b trace)"
  "list_all handler_free b \<Longrightarrow> halts_at_first_fault env trace (exec_times env n b trace)"
proof (induction env s trace and env b trace and env n b trace
       rule: exec_exec_block_exec_times.induct)
  case (1 env line src trace)
  then show ?case by (simp add: halts_step)
next
  case (2 env line header body trace)
  obtain t1 r1 where st: "step env line trace = (t1, r1)" by (cases "step env line trace")
  have h1: "halts_at_first_fault env trace (t1, r1)"
    using halts_step[of env trace line] st by simp
  show ?case
  proof (cases r1)
    case None
    with 2 st have "halts_at_first_fault env t1 (exec_times env (iterations env line) body t1)"
      by simp
    with h1 None st show ?thesis
      by (simp add: halts_seq)
  next
    case (Some e)
    with h1 st show ?thesis by simp
  qed
next
  case (3 env line cond body trace)
  obtain t1 r1 where st: "step env line trace = (t1, r1)" by (cases "step env line trace")
  have h1: "halts_at_first_fault env trace (t1, r1)"
    using halts_step[of env trace line] st by simp
  show ?case
  proof (cases r1)
    case None
    show ?thesis
    proof (cases "holds env (length trace) line")
      case True
      with 3 st None have "halts_at_first_fault env t1 (exec_block env body t1)"
        by simp
      with h1 None st True show ?thesis
        by (simp add: halts_seq)
    next
      case False
      with h1 None st show ?thesis by simp
    qed
  next
    case (Some e)
    with h1 st show ?thesis by simp
  qed
next
  case (4 env line header body trace)
  then show ?case by (simp add: halts_step)
next
  case (5 env line header body trace)
  obtain t1 r1 where st: "step env line trace = (t1, r1)" by (cases "step env line trace")
  have h1: "halts_at_first_fault env trace (t1, r1)"
    using halts_step[of env trace line] st by simp
  show ?case
  proof (cases r1)
    case None
    with 5 st have "halts_at_first_fault env t1 (exec_block env body t1)"
      by simp
    with h1 None st show ?thesis
      by (simp add: halts_seq)
  next
    case (Some e)
    with h1 st show ?thesis by simp
  qed
next
  case (6 env body handler trace)
  then show ?case by simp
next
  case (7 env trace)
  then show ?case by (simp add: halts_refl)
next
  case (8 env s rest trace)
  obtain t1 r1 where st: "exec env s trace = (t1, r1)" by (cases "exec env s trace")
  from 8 st have h1: "halts_at_first_fault env trace (t1, r1)"
    by simp
  show ?case
  proof (cases r1)
    case None
    with 8 st have "halts_at_first_fault env t1 (exec_block env rest t1)"
      by simp
    with h1 None st show ?thesis
      by (simp add: halts_seq)
  next
    case (Some e)
    with h1 st show ?thesis by simp
  qed
next
  case (9 env body trace)
  then show ?case by (simp add: halts_refl)
next
  case (10 env n body trace)
  obtain t1 r1 where st: "exec_block env body trace = (t1, r1)" by (cases "exec_block env body trace")
  from 10 st have h1: "halts_at_first_fault env trace (t1, r1)"
    by simp
  show ?case
  proof (cases r1)
    case None
    with 10 st have "halts_at_first_fault env t1 (exec_times env n body t1)"
      by simp
    with h1 None st show ?thesis
      by (simp add: halts_seq)
  next
    case (Some e)
    with h1 st show ?thesis by simp
  qed
qed

lemma notebook_cells_handler_free: "list_all handler_free_cell notebook"
  by (simp add: notebook_def handler_free_cell_def)

text \<open>
  C6. No operation in the notebook catches an error. Every cell is free of handlers; a
  cell that does not parse (the unterminated list literal of the first dataset cell) fails
  with a syntax error before anything runs; and in every other cell, whatever the
  libraries do, a statement that raises ends the run of the cell with that very exception
  and is the last statement executed: nothing recovers or falls back.
\<close>

theorem notebook_faults_halt_the_cell:
  assumes "c \<in> set notebook"
  shows "handler_free_cell c
         \<and> (\<forall>line. c = Unparsable line \<longrightarrow> run_cell env c = ([], Some SyntaxError))
         \<and> (\<forall>k e. k < length (fst (run_cell env c))
                \<and> raises env k (fst (run_cell env c) ! k) = Some e
              \<longrightarrow> snd (run_cell env c) = Some e \<and> Suc k = length (fst (run_cell env c)))"
proof -
  from assms have hf: "handler_free_cell c"
    using notebook_cells_handler_free by (simp add: list_all_iff)
  have syn: "\<forall>line. c = Unparsable line \<longrightarrow> run_cell env c = ([], Some SyntaxError)"
    by (simp add: run_cell_def)
  have "halts_at_first_fault env [] (run_cell env c)"
  proof (cases c)
    case (Unparsable line)
    then show ?thesis
      by (simp add: run_cell_def halts_at_first_fault_def)
  next
    case (Code body)
    with hf have "list_all handler_free body"
      by (simp add: handler_free_cell_def)
    then show ?thesis
      using Code exec_halts(2)[of body env "[]"] by (simp add: run_cell_def)
  qed
  then have "\<forall>k e. k < length (fst (run_cell env c))
                \<and> raises env k (fst (run_cell env c) ! k) = Some e
              \<longrightarrow> snd (run_cell env c) = Some e \<and> Suc k = length (fst (run_cell env c))"
    by (simp add: halts_at_first_fault_def)
  with hf syn show ?thesis by blast
qed

lemma second_training_cell:
  "notebook ! 9 =
     Code
      [Simple 246 ''import torch.optim as optim'',
       Simple 249 ''optimizer = optim.AdamW(model.parameters(), lr=2e-5)'',
       Simple 250 ''criterion = torch.nn.CrossEntropyLoss()'',
       Simple 253 ''num_epochs = 3'',
       For 254 ''for epoch in range(num_epochs):''
        [Simple 255 ''optimizer.zero_grad()'',
         Simple 256 ''outputs = model(input_ids, attention_mask=attention_mask, labels=torch.tensor(sentiments))'',
         Simple 257 ''loss = outputs.loss'',
         Simple 258 ''loss.backward()'',
         Simple 259 ''optimizer.step()'']]"
  by (simp add: notebook_def)


lemma second_training_cell_run:
  "run_cell second_loop_env (notebook ! 9) = ([246, 249, 250, 253, 254, 255, 256], Some ValueError)"
  unfolding second_training_cell
  by (simp add: run_cell_def step_def second_loop_env_def num_epochs_def numeral_3_eq_3)


theorem notebook_faults_halt_the_cell_witness:
  "notebook ! 1 = Unparsable 42
   \<and> run_cell second_loop_env (notebook ! 1) = ([], Some SyntaxError)
   \<and> handler_free_cell (notebook ! 9)
   \<and> run_cell second_loop_env (notebook ! 9) = ([246, 249, 250, 253, 254, 255, 256], Some ValueError)
   \<and> raises second_loop_env 6 256 = Some ValueError"
proof -
  have len: "length notebook = 15"
    by (simp add: notebook_def)
  have m1: "notebook ! 1 \<in> set notebook"
    by (rule nth_mem) (simp add: len)
  have m9: "notebook ! 9 \<in> set notebook"
    by (rule nth_mem) (simp add: len)
  have u: "notebook ! 1 = Unparsable 42"
    by (simp add: notebook_def)
  have r: "raises second_loop_env 6 256 = Some ValueError"
    by (simp add: second_loop_env_def)
  from notebook_faults_halt_the_cell[OF m1, of second_loop_env] u
  have s: "run_cell second_loop_env (notebook ! 1) = ([], Some SyntaxError)"
    by blast
  from notebook_faults_halt_the_cell[OF m9, of second_loop_env]
  have h: "handler_free_cell (notebook ! 9)"
    by blast
  from u s h second_training_cell_run r show ?thesis
    by blast
qed

end
